theory Spec2Isabelle
  imports Main "HOL-Library.AList"
begin

section \<open>Data model of app.js\<close>

text \<open>
  The values a field of \<^verbatim>\<open>req.body\<close> can hold after \<^verbatim>\<open>express.urlencoded({ extended:
  true })\<close> and \<^verbatim>\<open>express.json()\<close> (lines 48-49): absent (\<^verbatim>\<open>undefined\<close>), \<^verbatim>\<open>null\<close>, a
  boolean, a number, a string, an array, or a plain object with one value per key.
  \<open>JNum n\<close> is a number whose value is the integer \<open>n\<close>; \<open>JNumOther\<close> is any other
  number (one with a fractional part, or an infinity).
\<close>

datatype js =
  JUndefined
| JNull
| JBool bool
| JNum int
| JNumOther
| JStr string
| JArr "js list"
| JObj "(string \<times> js) list"

text \<open>
  The value stored in \<^verbatim>\<open>otpStore\<close> under an OTP key (app.js, lines 172-176):
  \<^verbatim>\<open>{ otp, expires, username }\<close>. Instants are the integer milliseconds of
  \<^verbatim>\<open>Date.now()\<close>; the user name is the body field as it was received.
\<close>

record otp_data =
  otp :: string
  expires :: int
  otp_username :: js

text \<open>
  \<^verbatim>\<open>const otpStore = new Map()\<close>. A JavaScript Map keeps its entries in insertion order
  with one entry per key: \<^verbatim>\<open>get\<close> is \<^const>\<open>map_of\<close>, \<^verbatim>\<open>set\<close> is
  \<^const>\<open>AList.update\<close> (an existing key keeps its place and takes the new value, a new
  key is appended), \<^verbatim>\<open>delete\<close> is \<^const>\<open>AList.delete\<close>, \<^verbatim>\<open>size\<close> is
  \<^const>\<open>length\<close>.
\<close>

type_synonym otp_store = "(string \<times> otp_data) list"

text \<open>\<^verbatim>\<open>req.session.pendingAuth = { username, timestamp }\<close> (lines 162-165).\<close>

record pending_auth =
  pa_username :: js
  pa_timestamp :: int

text \<open>
  The fields of \<^verbatim>\<open>req.session\<close> the handlers read and write. A field that is
  \<^verbatim>\<open>undefined\<close> or \<^verbatim>\<open>null\<close> is \<^const>\<open>None\<close>; \<^verbatim>\<open>authenticated\<close> is either
  unset (falsy) or \<^verbatim>\<open>true\<close>.
\<close>

record session =
  pendingAuth :: "pending_auth option"
  otpKey :: "string option"
  authenticated :: bool
  username :: "js option"
  loginTime :: "int option"

text \<open>The session express-session hands to a client that has none (or whose session was destroyed).\<close>

definition new_session :: session where
  "new_session =
     \<lparr>pendingAuth = None, otpKey = None, authenticated = False, username = None, loginTime = None\<rparr>"

text \<open>
  What a handler answers: \<^verbatim>\<open>res.redirect(path)\<close>, \<^verbatim>\<open>res.render(view, { error })\<close>, the
  dashboard rendered with the session's user name and login time, or, when the handler
  throws, the error response of Express (status 500). The session is saved when the
  response ends, whichever it is.
\<close>

datatype response =
  Redirect string
| Render string "string option"
| RenderDashboard "js option" "int option"
| ServerError

section \<open>Helpers\<close>

text \<open>
  The regular expression \<^verbatim>\<open>/^\d{4}$/\<close>. Without the multiline flag \<^verbatim>\<open>^\<close> and \<^verbatim>\<open>$\<close>
  match only at the two ends of the input, and \<^verbatim>\<open>\d\<close> is one of the ten ASCII digits.
  \<open>match_seq\<close> matches an anchored sequence of one-character classes.
\<close>

definition is_digit :: "char \<Rightarrow> bool" where
  "is_digit c = (c \<in> set ''0123456789'')"

fun match_seq :: "(char \<Rightarrow> bool) list \<Rightarrow> string \<Rightarrow> bool" where
  "match_seq [] s = (s = [])"
| "match_seq (p # ps) [] = False"
| "match_seq (p # ps) (c # cs) = (p c \<and> match_seq ps cs)"

definition password_regex_test :: "string \<Rightarrow> bool" where
  "password_regex_test s = match_seq (replicate 4 is_digit) s"

text \<open>
  \<^verbatim>\<open>Number.prototype.toString\<close> on an integer (below \<open>10^21\<close> in magnitude, as every
  \<^verbatim>\<open>Date.now()\<close> is): the decimal digits without leading zeros, after a minus sign for a
  negative number.
\<close>

definition digit_char :: "nat \<Rightarrow> char" where
  "digit_char d = ''0123456789'' ! d"

fun dec_nat :: "nat \<Rightarrow> string" where
  "dec_nat n = (if n < 10 then [digit_char n] else dec_nat (n div 10) @ [digit_char (n mod 10)])"

declare dec_nat.simps [simp del]

definition number_toString :: "int \<Rightarrow> string" where
  "number_toString i = (if i < 0 then CHR ''-'' # dec_nat (nat (- i)) else dec_nat (nat i))"

text \<open>
  The result of a conversion of the language applied to a body field: a value, a thrown
  \<^verbatim>\<open>TypeError\<close>, or \<open>NotComputed\<close> where the conversion is floating-point arithmetic
  that this development does not compute: a number other than an integer below \<open>10^21\<close>
  written as a string, or a string read as a number.
\<close>

datatype 'a conv = Value 'a | TypeError | NotComputed

text \<open>\<^verbatim>\<open>!x\<close> is \<open>\<not> truthy x\<close> (ToBoolean).\<close>

fun truthy :: "js \<Rightarrow> bool" where
  "truthy JUndefined = False"
| "truthy JNull = False"
| "truthy (JBool b) = b"
| "truthy (JNum n) = (n \<noteq> 0)"
| "truthy JNumOther = True"
| "truthy (JStr s) = (s \<noteq> [])"
| "truthy (JArr xs) = True"
| "truthy (JObj kvs) = True"

text \<open>
  \<^verbatim>\<open>Array.prototype.join\<close> with the default separator, on the strings of the elements;
  the elements are converted from left to right, and the first that does not give a string
  decides.
\<close>

fun join_strs :: "string list \<Rightarrow> string" where
  "join_strs [] = []"
| "join_strs [x] = x"
| "join_strs (x # y # ys) = x @ '','' @ join_strs (y # ys)"

fun conv_all :: "'a conv list \<Rightarrow> 'a list conv" where
  "conv_all [] = Value []"
| "conv_all (Value x # cs) =
     (case conv_all cs of Value xs \<Rightarrow> Value (x # xs) | TypeError \<Rightarrow> TypeError
      | NotComputed \<Rightarrow> NotComputed)"
| "conv_all (TypeError # cs) = TypeError"
| "conv_all (NotComputed # cs) = NotComputed"

text \<open>
  ToString, as the template literal of line 169 and \<^verbatim>\<open>RegExp.prototype.test\<close> of line 157
  apply it. An array is the join of its elements, where \<^verbatim>\<open>undefined\<close> and \<^verbatim>\<open>null\<close> give
  the empty string. A plain object is \<^verbatim>\<open>[object Object]\<close> through
  \<^verbatim>\<open>Object.prototype.toString\<close>, unless it has a key \<^verbatim>\<open>toString\<close> of its own: a parsed
  body holds no function, so that property is not callable, \<^verbatim>\<open>valueOf\<close> gives no
  primitive either, and the conversion throws.
\<close>

fun js_to_string :: "js \<Rightarrow> string conv" where
  "js_to_string JUndefined = Value ''undefined''"
| "js_to_string JNull = Value ''null''"
| "js_to_string (JBool b) = Value (if b then ''true'' else ''false'')"
| "js_to_string (JNum n) =
     (if \<bar>n\<bar> < 1000000000000000000000 then Value (number_toString n) else NotComputed)"
| "js_to_string JNumOther = NotComputed"
| "js_to_string (JStr s) = Value s"
| "js_to_string (JArr xs) =
     (case conv_all (map (\<lambda>x. if x = JUndefined \<or> x = JNull then Value [] else js_to_string x) xs)
      of Value strs \<Rightarrow> Value (join_strs strs) | TypeError \<Rightarrow> TypeError
      | NotComputed \<Rightarrow> NotComputed)"
| "js_to_string (JObj kvs) =
     (if map_of kvs ''toString'' \<noteq> None then TypeError else Value ''[object Object]'')"

text \<open>
  The property \<^verbatim>\<open>x.length\<close> of a truthy body field: the number of code units of a
  string, the number of elements of an array, the value under the key \<^verbatim>\<open>length\<close> of an
  object (\<^verbatim>\<open>undefined\<close> without one); numbers and booleans have none.
\<close>

fun js_length :: "js \<Rightarrow> js" where
  "js_length (JStr s) = JNum (int (length s))"
| "js_length (JArr xs) = JNum (int (length xs))"
| "js_length (JObj kvs) = (case map_of kvs ''length'' of None \<Rightarrow> JUndefined | Some v \<Rightarrow> v)"
| "js_length _ = JUndefined"

text \<open>
  The comparison \<^verbatim>\<open>v >= 20\<close>: \<open>v\<close> is made a number first. \<^verbatim>\<open>undefined\<close> and an object
  without a \<^verbatim>\<open>toString\<close> of its own are not a number, the comparison is false;
  \<^verbatim>\<open>null\<close> and the booleans are 0 or 1.
\<close>

fun ge_20 :: "js \<Rightarrow> bool conv" where
  "ge_20 (JNum n) = Value (n \<ge> 20)"
| "ge_20 JUndefined = Value False"
| "ge_20 JNull = Value False"
| "ge_20 (JBool b) = Value False"
| "ge_20 (JObj kvs) = (if map_of kvs ''toString'' \<noteq> None then TypeError else Value False)"
| "ge_20 (JArr xs) =
     (case js_to_string (JArr xs) of TypeError \<Rightarrow> TypeError | _ \<Rightarrow> NotComputed)"
| "ge_20 (JStr s) = NotComputed"
| "ge_20 JNumOther = NotComputed"

text \<open>
  The template literal \<^verbatim>\<open>`${username}_${Date.now()}`\<close> of line 169, on the string of the
  user name.
\<close>

definition otp_key_of :: "string \<Rightarrow> int \<Rightarrow> string" where
  "otp_key_of u now = u @ ''_'' @ number_toString now"

section \<open>POST /login (lines 145-190)\<close>

text \<open>
  What the handler takes from outside the session and the store: the string
  \<^verbatim>\<open>generateOTP()\<close> returned, the three readings of \<^verbatim>\<open>Date.now()\<close> (lines 164, 169
  and 174, in this order) and whether \<^verbatim>\<open>sendOTPEmail\<close> resolved to \<^verbatim>\<open>true\<close>.
\<close>

record login_env =
  generated_otp :: string
  now_pending :: int
  now_key :: int
  now_store :: int
  email_sent :: bool

text \<open>
  The handler on the two body fields as they were parsed. The session is written at
  line 162, before the key is built at line 169: a user name whose conversion to a string
  throws there leaves the pending attempt in the session without a key or a record. The
  store and the key are written before the mail is sent, and neither branch of the
  \<^verbatim>\<open>then\<close> callback writes them again. The result is \<^const>\<open>None\<close> where a check
  needs a conversion that is \<^const>\<open>NotComputed\<close>.
\<close>

fun post_login ::
  "login_env \<Rightarrow> js \<Rightarrow> js \<Rightarrow> session \<times> otp_store
     \<Rightarrow> (response \<times> session \<times> otp_store) option" where
  "post_login env uname pword (s, st) =
     (if \<not> truthy uname \<or> \<not> truthy pword then
        Some (Render ''login'' (Some ''Username and password are required''), s, st)
      else
        case ge_20 (js_length uname) of
          NotComputed \<Rightarrow> None
        | TypeError \<Rightarrow> Some (ServerError, s, st)
        | Value too_long \<Rightarrow>
            if too_long then
              Some (Render ''login'' (Some ''Username must be less than 20 characters''), s, st)
            else
              (case js_to_string pword of
                 NotComputed \<Rightarrow> None
               | TypeError \<Rightarrow> Some (ServerError, s, st)
               | Value p \<Rightarrow>
                   if \<not> password_regex_test p then
                     Some (Render ''login'' (Some ''Password must be exactly 4 digits''), s, st)
                   else
                     let s1 = s\<lparr>pendingAuth :=
                                  Some \<lparr>pa_username = uname, pa_timestamp = now_pending env\<rparr>\<rparr>;
                         code = generated_otp env
                     in (case js_to_string uname of
                           NotComputed \<Rightarrow> None
                         | TypeError \<Rightarrow> Some (ServerError, s1, st)
                         | Value u \<Rightarrow>
                             let key = otp_key_of u (now_key env);
                                 st1 = AList.update key
                                         \<lparr>otp = code, expires = now_store env + 60000,
                                          otp_username = uname\<rparr> st;
                                 s2 = s1\<lparr>otpKey := Some key\<rparr>
                             in if email_sent env then Some (Redirect ''/verify-otp'', s2, st1)
                                else Some (Render ''login''
                                       (Some ''Failed to send OTP. Please try again.''), s2, st1))))"

section \<open>POST /verify-otp (lines 201-241)\<close>

text \<open>
  \<open>now\<close> is the \<^verbatim>\<open>Date.now()\<close> of line 216, \<open>date\<close> the \<^verbatim>\<open>new Date()\<close> of line 231,
  \<open>body_otp\<close> the field \<^verbatim>\<open>req.body.otp\<close>, compared with \<^verbatim>\<open>!==\<close>: a field that
  is not a string differs from every stored code, as an absent one does, and is
  \<^const>\<open>None\<close> here. The key read from the session is falsy when it is unset or the
  empty string.
\<close>

fun post_verify_otp ::
  "int \<Rightarrow> int \<Rightarrow> string option \<Rightarrow> session \<times> otp_store \<Rightarrow> response \<times> session \<times> otp_store" where
  "post_verify_otp now date body_otp (s, st) =
     (case (pendingAuth s, otpKey s) of
        (Some pa, Some k) \<Rightarrow>
          if k = [] then (Redirect ''/login'', s, st)
          else
            (case map_of st k of
               None \<Rightarrow> (Render ''verify-otp'' (Some ''OTP not found or expired''), s, st)
             | Some d \<Rightarrow>
                 if now > expires d then
                   (Render ''verify-otp'' (Some ''OTP has expired. Please login again.''),
                    s\<lparr>pendingAuth := None, otpKey := None\<rparr>,
                    AList.delete k st)
                 else if body_otp \<noteq> Some (otp d) then
                   (Render ''verify-otp'' (Some ''Invalid OTP. Please try again.''), s, st)
                 else
                   (Redirect ''/dashboard'',
                    s\<lparr>authenticated := True, username := Some (pa_username pa),
                      loginTime := Some date, pendingAuth := None, otpKey := None\<rparr>,
                    AList.delete k st))
      | _ \<Rightarrow> (Redirect ''/login'', s, st))"

section \<open>POST /logout (lines 252-262) and the pages\<close>

text \<open>
  \<^verbatim>\<open>req.session.destroy\<close> removes the whole session; the store of the application is not
  touched. The client's next request is served with a fresh session.
\<close>

fun post_logout :: "session \<times> otp_store \<Rightarrow> response \<times> session \<times> otp_store" where
  "post_logout (s, st) = (Redirect ''/login'', new_session, st)"

text \<open>\<^verbatim>\<open>requireAuth\<close> (lines 118-124) in front of the dashboard (lines 244-249).\<close>

fun get_dashboard :: "session \<Rightarrow> response" where
  "get_dashboard s =
     (if authenticated s then RenderDashboard (username s) (loginTime s)
      else Redirect ''/login'')"

text \<open>The page of the second factor (lines 193-198).\<close>

fun get_verify_otp :: "session \<Rightarrow> response" where
  "get_verify_otp s =
     (case pendingAuth s of None \<Rightarrow> Redirect ''/login''
      | Some pa \<Rightarrow> Render ''verify-otp'' None)"

text \<open>The login page (lines 137-142).\<close>

fun get_login :: "session \<Rightarrow> response" where
  "get_login s = (if authenticated s then Redirect ''/dashboard'' else Render ''login'' None)"

section \<open>The periodic clean-up (lines 265-277)\<close>

text \<open>
  The loop visits the entries of the Map in order and deletes the visited entry when it
  has expired; the second component counts the deletions (\<^verbatim>\<open>cleanedCount\<close>).
\<close>

fun cleanup_loop ::
  "int \<Rightarrow> (string \<times> otp_data) list \<Rightarrow> otp_store \<times> nat \<Rightarrow> otp_store \<times> nat" where
  "cleanup_loop now [] acc = acc"
| "cleanup_loop now ((key, v) # es) (st, cleanedCount) =
     (if now > expires v then cleanup_loop now es (AList.delete key st, cleanedCount + 1)
      else cleanup_loop now es (st, cleanedCount))"

definition cleanup :: "int \<Rightarrow> otp_store \<Rightarrow> otp_store \<times> nat" where
  "cleanup now st = cleanup_loop now st (st, 0)"

section \<open>Vocabulary of the properties\<close>

text \<open>The three components of what a handler returns.\<close>

abbreviation resp :: "response \<times> session \<times> otp_store \<Rightarrow> response" where
  "resp r \<equiv> fst r"

abbreviation sess :: "response \<times> session \<times> otp_store \<Rightarrow> session" where
  "sess r \<equiv> fst (snd r)"

abbreviation store :: "response \<times> session \<times> otp_store \<Rightarrow> otp_store" where
  "store r \<equiv> snd (snd r)"

text \<open>
  The guard on a credential submission in the words of the specification: username (a
  string) non-empty and shorter than 20, password (a string) non-empty and exactly 4
  numeric digits. It is compared below with the checks of the handler.
\<close>

fun spec_guard :: "js \<Rightarrow> js \<Rightarrow> bool" where
  "spec_guard (JStr u) (JStr p) =
     (u \<noteq> [] \<and> length u < 20 \<and> p \<noteq> [] \<and> length p = 4 \<and> list_all is_digit p)"
| "spec_guard _ _ = False"

text \<open>The three validation errors the login handler renders.\<close>

definition validation_error :: "response \<Rightarrow> bool" where
  "validation_error r =
     (r = Render ''login'' (Some ''Username and password are required'')
      \<or> r = Render ''login'' (Some ''Username must be less than 20 characters'')
      \<or> r = Render ''login'' (Some ''Password must be exactly 4 digits''))"

text \<open>A session holding an authenticated user name and an OTP key at once.\<close>

definition both_populated :: "session \<Rightarrow> bool" where
  "both_populated s = (username s \<noteq> None \<and> otpKey s \<noteq> None)"

section \<open>Lemmas on the helpers\<close>

lemma match_seq_replicate:
  "match_seq (replicate n P) s = (length s = n \<and> (\<forall>c\<in>set s. P c))"
proof (induction n arbitrary: s)
  case 0
  show ?case by auto
next
  case (Suc n)
  show ?case by (cases s) (auto simp: Suc.IH)
qed

lemma password_regex_test_iff:
  "password_regex_test p = (length p = 4 \<and> (\<forall>c\<in>set p. is_digit c))"
  by (simp add: password_regex_test_def match_seq_replicate)

lemma digit_char_neq_underscore: "d < 10 \<Longrightarrow> digit_char d \<noteq> CHR ''_''"
  unfolding digit_char_def
  by (simp add: nth_Cons' split: if_splits) 

lemma digit_char_inj: "a < 10 \<Longrightarrow> b < 10 \<Longrightarrow> digit_char a = digit_char b \<Longrightarrow> a = b"
  unfolding digit_char_def
  by (simp add: nth_Cons' split: if_splits)

lemma dec_nat_no_underscore: "CHR ''_'' \<notin> set (dec_nat n)"
proof (induction n rule: dec_nat.induct)
  case (1 n)
  show ?case
  proof (cases "n < 10")
    case True
    then show ?thesis
      using digit_char_neq_underscore [of n] by (simp add: dec_nat.simps [of n])
  next
    case False
    have "n mod 10 < 10" by simp
    then have "digit_char (n mod 10) \<noteq> CHR ''_''" by (rule digit_char_neq_underscore)
    with False "1.IH" show ?thesis by (auto simp add: dec_nat.simps [of n])
  qed
qed

lemma dec_nat_nonempty: "dec_nat n \<noteq> []"
  by (subst dec_nat.simps) simp

lemma dec_nat_length_ge2: "\<not> n < 10 \<Longrightarrow> 2 \<le> length (dec_nat n)"
  using dec_nat_nonempty [of "n div 10"]
  by (subst dec_nat.simps) (cases "dec_nat (n div 10)"; simp)

lemma dec_nat_inj: "dec_nat n = dec_nat m \<Longrightarrow> n = m"
proof (induction n arbitrary: m rule: dec_nat.induct)
  case (1 n)
  show ?case
  proof (cases "n < 10")
    case n: True
    show ?thesis
    proof (cases "m < 10")
      case True
      with n "1.prems" show ?thesis
        by (simp add: dec_nat.simps [of n] dec_nat.simps [of m] digit_char_inj)
    next
      case False
      from n have "length (dec_nat n) = 1" by (simp add: dec_nat.simps [of n])
      with dec_nat_length_ge2 [OF False] "1.prems" show ?thesis by simp
    qed
  next
    case n: False
    show ?thesis
    proof (cases "m < 10")
      case True
      from True have "length (dec_nat m) = 1" by (simp add: dec_nat.simps [of m])
      with dec_nat_length_ge2 [OF n] "1.prems" show ?thesis by simp
    next
      case False
      from n False "1.prems"
      have eq: "dec_nat (n div 10) = dec_nat (m div 10)"
        and d: "digit_char (n mod 10) = digit_char (m mod 10)"
        by (simp_all add: dec_nat.simps [of n] dec_nat.simps [of m])
      from "1.IH" [OF n eq] have q: "n div 10 = m div 10" .
      from d have r: "n mod 10 = m mod 10" by (intro digit_char_inj) simp_all
      from q r show ?thesis by (metis div_mult_mod_eq)
    qed
  qed
qed

lemma dec_nat_hd_not_minus: "hd (dec_nat n) \<noteq> CHR ''-''"
proof (induction n rule: dec_nat.induct)
  case (1 n)
  show ?case
  proof (cases "n < 10")
    case True
    then show ?thesis
      unfolding dec_nat.simps [of n] digit_char_def
      by (simp add: nth_Cons' split: if_splits)
  next
    case False
    with "1.IH" dec_nat_nonempty [of "n div 10"] show ?thesis
      by (simp add: dec_nat.simps [of n])
  qed
qed

lemma number_toString_no_underscore: "CHR ''_'' \<notin> set (number_toString i)"
  by (simp add: number_toString_def dec_nat_no_underscore)

lemma number_toString_inj: "number_toString i = number_toString j \<Longrightarrow> i = j"
proof -
  assume eq: "number_toString i = number_toString j"
  have neg: "a < 0 \<Longrightarrow> \<not> b < 0 \<Longrightarrow> number_toString a \<noteq> number_toString b" for a b
    using dec_nat_hd_not_minus [of "nat b"] dec_nat_nonempty [of "nat b"]
    by (cases "dec_nat (nat b)") (auto simp: number_toString_def)
  show ?thesis
  proof (cases "i < 0")
    case i: True
    show ?thesis
    proof (cases "j < 0")
      case True
      with i eq have "nat (- i) = nat (- j)" by (simp add: number_toString_def dec_nat_inj)
      with i True show ?thesis by simp
    next
      case False
      with neg [OF i False] eq show ?thesis by simp
    qed
  next
    case i: False
    show ?thesis
    proof (cases "j < 0")
      case True
      with neg [OF True i] eq show ?thesis by simp
    next
      case False
      with i eq have "nat i = nat j" by (simp add: number_toString_def dec_nat_inj)
      with i False show ?thesis by simp
    qed
  qed
qed

lemma sep_unique:
  "c \<notin> set a \<Longrightarrow> c \<notin> set b \<Longrightarrow> u @ c # a = v @ c # b \<Longrightarrow> u = v \<and> a = b"
proof (induction u arbitrary: v)
  case Nil
  then show ?case by (cases v) auto
next
  case (Cons x u)
  then show ?case by (cases v) auto
qed

lemma otp_key_of_inj: "(otp_key_of u t = otp_key_of u' t') = (u = u' \<and> t = t')"
proof
  assume "otp_key_of u t = otp_key_of u' t'"
  then have "u @ CHR ''_'' # number_toString t = u' @ CHR ''_'' # number_toString t'"
    by (simp add: otp_key_of_def)
  from sep_unique [OF number_toString_no_underscore number_toString_no_underscore this]
  show "u = u' \<and> t = t'" by (simp add: number_toString_inj)
next
  assume "u = u' \<and> t = t'"
  then show "otp_key_of u t = otp_key_of u' t'" by simp
qed

text \<open>The key the login handler writes to the session is never the empty string.\<close>

lemma otp_key_of_nonempty: "otp_key_of u t \<noteq> []"
  by (simp add: otp_key_of_def)

section \<open>Single use (C1)\<close>

text \<open>
  C1. Codes are single-use. When a verification for the key \<open>k\<close> of the session is
  answered with the redirect to the dashboard (the code matched before expiry), the record
  under \<open>k\<close> is gone from the store, and every later verification that reaches the store
  with the key \<open>k\<close> (a session whose pending attempt and key \<open>k\<close> are set), whatever its
  code and time, is answered "OTP not found or expired" and changes nothing. The session
  that was just authenticated has had its own key cleared, so its next submission is
  answered by the redirect of lines 205-207 before the store is read.
\<close>

theorem otp_single_use:
  assumes key: "otpKey s = Some k"
    and valid: "post_verify_otp now date c (s, st) = (Redirect ''/dashboard'', s', st')"
  shows "map_of st' k = None
    \<and> (pendingAuth s2 \<noteq> None \<and> otpKey s2 = Some k \<longrightarrow>
         post_verify_otp now2 date2 c2 (s2, st') =
           (Render ''verify-otp'' (Some ''OTP not found or expired''), s2, st'))"
proof -
  from key valid have st': "st' = AList.delete k st" and k: "k \<noteq> []"
    by (auto split: option.splits if_splits)
  have gone: "map_of st' k = None"
    by (simp add: st' delete_conv')
  have again: "post_verify_otp now2 date2 c2 (s2, st') =
      (Render ''verify-otp'' (Some ''OTP not found or expired''), s2, st')"
    if "pendingAuth s2 \<noteq> None" "otpKey s2 = Some k"
    using that k gone by (auto split: option.splits)
  from gone again show ?thesis by blast
qed

theorem otp_single_use_witness:
  "post_verify_otp 59000 59001 (Some ''7421'')
     (\<lparr>pendingAuth = Some \<lparr>pa_username = JStr ''alice'', pa_timestamp = 0\<rparr>,
       otpKey = Some ''alice_0'', authenticated = False, username = None, loginTime = None\<rparr>,
      [(''alice_0'', \<lparr>otp = ''7421'', expires = 60000, otp_username = JStr ''alice''\<rparr>)])
   = (Redirect ''/dashboard'',
      \<lparr>pendingAuth = None, otpKey = None, authenticated = True, username = Some (JStr ''alice''),
       loginTime = Some 59001\<rparr>, [])
   \<and> post_verify_otp 59002 59003 (Some ''7421'')
     (\<lparr>pendingAuth = Some \<lparr>pa_username = JStr ''alice'', pa_timestamp = 0\<rparr>,
       otpKey = Some ''alice_0'', authenticated = False, username = None, loginTime = None\<rparr>, [])
   = (Render ''verify-otp'' (Some ''OTP not found or expired''),
      \<lparr>pendingAuth = Some \<lparr>pa_username = JStr ''alice'', pa_timestamp = 0\<rparr>,
       otpKey = Some ''alice_0'', authenticated = False, username = None, loginTime = None\<rparr>, [])"
  using otp_single_use [of
      "\<lparr>pendingAuth = Some \<lparr>pa_username = JStr ''alice'', pa_timestamp = 0\<rparr>,
        otpKey = Some ''alice_0'', authenticated = False, username = None, loginTime = None\<rparr>"
      "''alice_0''" 59000 59001 "Some ''7421''"
      "[(''alice_0'', \<lparr>otp = ''7421'', expires = 60000, otp_username = JStr ''alice''\<rparr>)]"
      "\<lparr>pendingAuth = None, otpKey = None, authenticated = True, username = Some (JStr ''alice''),
        loginTime = Some 59001\<rparr>" "[]"
      "\<lparr>pendingAuth = Some \<lparr>pa_username = JStr ''alice'', pa_timestamp = 0\<rparr>,
        otpKey = Some ''alice_0'', authenticated = False, username = None, loginTime = None\<rparr>"
      59002 59003 "Some ''7421''"]
  by simp

section \<open>Mismatch keeps the record (C6)\<close>

text \<open>
  C6. Mismatch is non-destructive. For a pending session whose key \<open>k\<close> has a record
  \<open>d\<close> that has not expired at \<open>t1\<close>, a submitted code other than the stored one is
  answered "Invalid OTP" with the session and the store unchanged; a following submission
  of the stored code at any \<open>t2\<close> up to \<open>expires d\<close> (so in particular before it) is
  answered with the redirect to the dashboard, authenticates the pending user and deletes
  the record.
\<close>

theorem mismatch_non_destructive:
  assumes "pendingAuth s = Some pa" and "otpKey s = Some k" and "k \<noteq> []"
    and "map_of st k = Some d"
    and "t1 \<le> expires d" and "c' \<noteq> Some (otp d)" and "t2 \<le> expires d"
  shows "post_verify_otp t1 date1 c' (s, st) =
           (Render ''verify-otp'' (Some ''Invalid OTP. Please try again.''), s, st)
    \<and> post_verify_otp t2 date2 (Some (otp d)) (snd (post_verify_otp t1 date1 c' (s, st))) =
           (Redirect ''/dashboard'',
            s\<lparr>authenticated := True, username := Some (pa_username pa), loginTime := Some date2,
              pendingAuth := None, otpKey := None\<rparr>,
            AList.delete k st)"
  using assms by simp

theorem mismatch_non_destructive_witness:
  "post_verify_otp 5000 5001 (Some ''2222'')
     (\<lparr>pendingAuth = Some \<lparr>pa_username = JStr ''alice'', pa_timestamp = 0\<rparr>,
       otpKey = Some ''alice_0'', authenticated = False, username = None, loginTime = None\<rparr>,
      [(''alice_0'', \<lparr>otp = ''1111'', expires = 60000, otp_username = JStr ''alice''\<rparr>)])
   = (Render ''verify-otp'' (Some ''Invalid OTP. Please try again.''),
      \<lparr>pendingAuth = Some \<lparr>pa_username = JStr ''alice'', pa_timestamp = 0\<rparr>,
       otpKey = Some ''alice_0'', authenticated = False, username = None, loginTime = None\<rparr>,
      [(''alice_0'', \<lparr>otp = ''1111'', expires = 60000, otp_username = JStr ''alice''\<rparr>)])
   \<and> post_verify_otp 10000 10001 (Some ''1111'')
     (snd (post_verify_otp 5000 5001 (Some ''2222'')
     (\<lparr>pendingAuth = Some \<lparr>pa_username = JStr ''alice'', pa_timestamp = 0\<rparr>,
       otpKey = Some ''alice_0'', authenticated = False, username = None, loginTime = None\<rparr>,
      [(''alice_0'', \<lparr>otp = ''1111'', expires = 60000, otp_username = JStr ''alice''\<rparr>)])))
   = (Redirect ''/dashboard'',
      \<lparr>pendingAuth = None, otpKey = None, authenticated = True, username = Some (JStr ''alice''),
       loginTime = Some 10001\<rparr>, [])"
  using mismatch_non_destructive [of
      "\<lparr>pendingAuth = Some \<lparr>pa_username = JStr ''alice'', pa_timestamp = 0\<rparr>,
        otpKey = Some ''alice_0'', authenticated = False, username = None, loginTime = None\<rparr>"
      "\<lparr>pa_username = JStr ''alice'', pa_timestamp = 0\<rparr>" "''alice_0''"
      "[(''alice_0'', \<lparr>otp = ''1111'', expires = 60000, otp_username = JStr ''alice''\<rparr>)]"
      "\<lparr>otp = ''1111'', expires = 60000, otp_username = JStr ''alice''\<rparr>"
      5000 "Some ''2222''" 10000 5001 10001]
  by simp

section \<open>Expiry (C4)\<close>

text \<open>
  C4 as stated asks that a code accepted at time \<open>t\<close> has \<open>t < expires\<close> and that every
  submission at \<open>t \<ge> expires\<close> is answered as expired. The test of line 216 is
  \<^verbatim>\<open>Date.now() > storedOTPData.expires\<close>: at the instant \<open>t = expires\<close> the stored code is
  still accepted, and a wrong code is answered "Invalid OTP", not as expired.
\<close>

theorem expiry_boundary_counterexample:
  "\<not> (60000::int) < expires \<lparr>otp = ''7421'', expires = 60000, otp_username = JStr ''alice''\<rparr>
   \<and> resp (post_verify_otp 60000 60001 (Some ''7421'')
     (\<lparr>pendingAuth = Some \<lparr>pa_username = JStr ''alice'', pa_timestamp = 0\<rparr>,
       otpKey = Some ''alice_0'', authenticated = False, username = None, loginTime = None\<rparr>,
      [(''alice_0'', \<lparr>otp = ''7421'', expires = 60000, otp_username = JStr ''alice''\<rparr>)]))
     = Redirect ''/dashboard''
   \<and> resp (post_verify_otp 60000 60001 (Some ''0000'')
     (\<lparr>pendingAuth = Some \<lparr>pa_username = JStr ''alice'', pa_timestamp = 0\<rparr>,
       otpKey = Some ''alice_0'', authenticated = False, username = None, loginTime = None\<rparr>,
      [(''alice_0'', \<lparr>otp = ''7421'', expires = 60000, otp_username = JStr ''alice''\<rparr>)]))
     = Render ''verify-otp'' (Some ''Invalid OTP. Please try again.'')"
  by simp

text \<open>
  C4, amended. For a pending session whose key \<open>k\<close> has a record \<open>d\<close>: if the submission
  at time \<open>t\<close> is answered with the redirect to the dashboard then \<open>t \<le> expires d\<close>;
  every submission at a time \<open>t > expires d\<close>, whatever its code, is answered "OTP has
  expired", clears the pending attempt and the key of the session and deletes the record;
  and at the instant \<open>t = expires d\<close> itself the record has not expired: the stored code
  is accepted, the pending user is authenticated and the record is deleted.
\<close>

theorem expired_after_window:
  assumes "pendingAuth s = Some pa" and "otpKey s = Some k" and "k \<noteq> []"
    and "map_of st k = Some d"
  shows "(resp (post_verify_otp t date c (s, st)) = Redirect ''/dashboard'' \<longrightarrow> t \<le> expires d)
    \<and> (expires d < t \<longrightarrow>
         post_verify_otp t date c (s, st) =
           (Render ''verify-otp'' (Some ''OTP has expired. Please login again.''),
            s\<lparr>pendingAuth := None, otpKey := None\<rparr>, AList.delete k st)
         \<and> map_of (AList.delete k st) k = None)
    \<and> post_verify_otp (expires d) date (Some (otp d)) (s, st) =
           (Redirect ''/dashboard'',
            s\<lparr>authenticated := True, username := Some (pa_username pa), loginTime := Some date,
              pendingAuth := None, otpKey := None\<rparr>,
            AList.delete k st)"
  using assms by (simp add: delete_conv')

theorem expired_after_window_witness:
  "resp (post_verify_otp 59000 59001 (Some ''7421'')
     (\<lparr>pendingAuth = Some \<lparr>pa_username = JStr ''alice'', pa_timestamp = 0\<rparr>,
       otpKey = Some ''alice_0'', authenticated = False, username = None, loginTime = None\<rparr>,
      [(''alice_0'', \<lparr>otp = ''7421'', expires = 60000, otp_username = JStr ''alice''\<rparr>)]))
     = Redirect ''/dashboard''
   \<and> (59000::int) \<le> 60000
   \<and> post_verify_otp 61000 61001 (Some ''7421'')
     (\<lparr>pendingAuth = Some \<lparr>pa_username = JStr ''alice'', pa_timestamp = 0\<rparr>,
       otpKey = Some ''alice_0'', authenticated = False, username = None, loginTime = None\<rparr>,
      [(''alice_0'', \<lparr>otp = ''7421'', expires = 60000, otp_username = JStr ''alice''\<rparr>)])
     = (Render ''verify-otp'' (Some ''OTP has expired. Please login again.''),
        \<lparr>pendingAuth = None, otpKey = None, authenticated = False, username = None,
         loginTime = None\<rparr>, [])
   \<and> post_verify_otp 60000 60001 (Some ''7421'')
     (\<lparr>pendingAuth = Some \<lparr>pa_username = JStr ''alice'', pa_timestamp = 0\<rparr>,
       otpKey = Some ''alice_0'', authenticated = False, username = None, loginTime = None\<rparr>,
      [(''alice_0'', \<lparr>otp = ''7421'', expires = 60000, otp_username = JStr ''alice''\<rparr>)])
     = (Redirect ''/dashboard'',
        \<lparr>pendingAuth = None, otpKey = None, authenticated = True,
         username = Some (JStr ''alice''), loginTime = Some 60001\<rparr>, [])"
  using expired_after_window [of
      "\<lparr>pendingAuth = Some \<lparr>pa_username = JStr ''alice'', pa_timestamp = 0\<rparr>,
       otpKey = Some ''alice_0'', authenticated = False, username = None, loginTime = None\<rparr>"
      "\<lparr>pa_username = JStr ''alice'', pa_timestamp = 0\<rparr>" "''alice_0''"
      "[(''alice_0'', \<lparr>otp = ''7421'', expires = 60000, otp_username = JStr ''alice''\<rparr>)]"
      "\<lparr>otp = ''7421'', expires = 60000, otp_username = JStr ''alice''\<rparr>"
      59000 59001 "Some ''7421''"]
    expired_after_window [of
      "\<lparr>pendingAuth = Some \<lparr>pa_username = JStr ''alice'', pa_timestamp = 0\<rparr>,
       otpKey = Some ''alice_0'', authenticated = False, username = None, loginTime = None\<rparr>"
      "\<lparr>pa_username = JStr ''alice'', pa_timestamp = 0\<rparr>" "''alice_0''"
      "[(''alice_0'', \<lparr>otp = ''7421'', expires = 60000, otp_username = JStr ''alice''\<rparr>)]"
      "\<lparr>otp = ''7421'', expires = 60000, otp_username = JStr ''alice''\<rparr>"
      61000 60001 "Some ''7421''"]
  by simp

section \<open>Logout (C10)\<close>

text \<open>
  C10. Logout from any session, whatever it holds, destroys the whole session: the
  client's next request is served with a fresh session, for which the dashboard and the
  second-factor page redirect to the login page and the login page is shown. The handler
  neither reads nor writes the store: it is returned as it was, so the record of a
  pending attempt is still there under its key.
\<close>

theorem logout_frame:
  "post_logout (s, st) = (Redirect ''/login'', new_session, st)
   \<and> get_dashboard (sess (post_logout (s, st))) = Redirect ''/login''
   \<and> get_verify_otp (sess (post_logout (s, st))) = Redirect ''/login''
   \<and> get_login (sess (post_logout (s, st))) = Render ''login'' None
   \<and> map_of (store (post_logout (s, st))) k = map_of st k"
  by (simp add: new_session_def)

section \<open>The clean-up (C9)\<close>

text \<open>
  After the loop has visited the entries \<open>es\<close>, the store holds the entries whose key is
  not the key of an expired entry of \<open>es\<close>, and the counter has grown by the number of
  expired entries.
\<close>

lemma cleanup_loop_fst:
  "fst (cleanup_loop now es (acc, n)) =
     filter (\<lambda>y. fst y \<notin> fst ` {x \<in> set es. expires (snd x) < now}) acc"
proof (induction es arbitrary: acc n)
  case Nil
  show ?case by simp
next
  case (Cons e es)
  obtain key v where e: "e = (key, v)" by (cases e)
  show ?case
  proof (cases "expires v < now")
    case True
    then have "fst (cleanup_loop now (e # es) (acc, n)) =
        filter (\<lambda>y. fst y \<notin> fst ` {x \<in> set es. expires (snd x) < now}) (AList.delete key acc)"
      by (simp add: e Cons.IH)
    also have "\<dots> = filter (\<lambda>y. fst y \<notin> fst ` {x \<in> set (e # es). expires (snd x) < now}) acc"
      using True by (auto simp: e AList.delete_eq image_iff intro!: filter_cong)
    finally show ?thesis .
  next
    case False
    then have "fst (cleanup_loop now (e # es) (acc, n)) =
        filter (\<lambda>y. fst y \<notin> fst ` {x \<in> set es. expires (snd x) < now}) acc"
      by (simp add: e Cons.IH)
    also have "\<dots> = filter (\<lambda>y. fst y \<notin> fst ` {x \<in> set (e # es). expires (snd x) < now}) acc"
      using False by (auto simp: e image_iff intro!: filter_cong)
    finally show ?thesis .
  qed
qed

lemma cleanup_loop_snd:
  "snd (cleanup_loop now es (acc, n)) = n + length (filter (\<lambda>e. expires (snd e) < now) es)"
proof (induction es arbitrary: acc n)
  case Nil
  show ?case by simp
next
  case (Cons e es)
  obtain key v where e: "e = (key, v)" by (cases e)
  show ?case by (simp add: e Cons.IH)
qed

lemma cleanup_filter:
  assumes "distinct (map fst st)"
  shows "fst (cleanup now st) = filter (\<lambda>e. \<not> expires (snd e) < now) st"
proof -
  have "(fst e \<notin> fst ` {x \<in> set st. expires (snd x) < now}) = (\<not> expires (snd e) < now)"
    if "e \<in> set st" for e
  proof
    assume "fst e \<notin> fst ` {x \<in> set st. expires (snd x) < now}"
    with that show "\<not> expires (snd e) < now" by auto
  next
    assume un: "\<not> expires (snd e) < now"
    show "fst e \<notin> fst ` {x \<in> set st. expires (snd x) < now}"
    proof
      assume "fst e \<in> fst ` {x \<in> set st. expires (snd x) < now}"
      then obtain x where x: "x \<in> set st" "expires (snd x) < now" "fst x = fst e" by auto
      from assms x(1) that x(3) have "x = e"
        by (metis eq_key_imp_eq_value prod.collapse)
      with x(2) un show False by simp
    qed
  qed
  then show ?thesis
    unfolding cleanup_def cleanup_loop_fst by (intro filter_cong) simp_all
qed

lemma cleanup_count:
  "snd (cleanup now st) = length (filter (\<lambda>e. expires (snd e) < now) st)"
  by (simp add: cleanup_def cleanup_loop_snd)

text \<open>
  Every handler and the clean-up keep a store with one entry per key, so every store the
  application reaches from the empty Map is one.
\<close>

lemma one_entry_per_key:
  assumes "distinct (map fst st)"
  shows "post_login env un pw (s, st) = Some r \<Longrightarrow> distinct (map fst (store r))"
    and "distinct (map fst (store (post_verify_otp now date c (s, st))))"
    and "distinct (map fst (store (post_logout (s, st))))"
    and "distinct (map fst (fst (cleanup now st)))"
proof -
  show "distinct (map fst (store r))" if "post_login env un pw (s, st) = Some r"
    using assms that
    by (auto simp: Let_def distinct_update split: if_splits conv.splits)
  show "distinct (map fst (store (post_verify_otp now date c (s, st))))"
    using assms by (auto split: option.splits simp: distinct_delete)
  show "distinct (map fst (store (post_logout (s, st))))"
    using assms by simp
  show "distinct (map fst (fst (cleanup now st)))"
    using assms by (simp add: cleanup_filter distinct_map_filter)
qed

text \<open>
  C9. On a store with one entry per key (as every Map is), the clean-up at \<open>now\<close> keeps
  exactly the entries that do not have \<open>expires < now\<close>, in their order, so an entry with
  \<open>expires = now\<close> survives; and running it a second time at the same \<open>now\<close> returns
  the same store and counts no deletion.
\<close>

theorem cleanup_exact_idempotent:
  assumes "distinct (map fst st)"
  shows "fst (cleanup now st) = filter (\<lambda>e. \<not> expires (snd e) < now) st
    \<and> cleanup now (fst (cleanup now st)) = (fst (cleanup now st), 0)"
proof -
  let ?st' = "filter (\<lambda>e. \<not> expires (snd e) < now) st"
  have first: "fst (cleanup now st) = ?st'" by (rule cleanup_filter [OF assms])
  from assms have d: "distinct (map fst ?st')" by (rule distinct_map_filter)
  have "fst (cleanup now ?st') = ?st'" by (simp add: cleanup_filter [OF d])
  moreover have "snd (cleanup now ?st') = 0" by (simp add: cleanup_count)
  ultimately have "cleanup now ?st' = (?st', 0)" by (simp add: prod_eq_iff)
  with first show ?thesis by simp
qed

theorem cleanup_exact_idempotent_witness:
  "cleanup 100
     [(''a_1'', \<lparr>otp = ''1111'', expires = 99, otp_username = JStr ''a''\<rparr>),
      (''b_2'', \<lparr>otp = ''2222'', expires = 100, otp_username = JStr ''b''\<rparr>),
      (''c_3'', \<lparr>otp = ''3333'', expires = 101, otp_username = JStr ''c''\<rparr>)]
   = ([(''b_2'', \<lparr>otp = ''2222'', expires = 100, otp_username = JStr ''b''\<rparr>),
       (''c_3'', \<lparr>otp = ''3333'', expires = 101, otp_username = JStr ''c''\<rparr>)], 1)
   \<and> cleanup 100
     [(''b_2'', \<lparr>otp = ''2222'', expires = 100, otp_username = JStr ''b''\<rparr>),
      (''c_3'', \<lparr>otp = ''3333'', expires = 101, otp_username = JStr ''c''\<rparr>)]
   = ([(''b_2'', \<lparr>otp = ''2222'', expires = 100, otp_username = JStr ''b''\<rparr>),
       (''c_3'', \<lparr>otp = ''3333'', expires = 101, otp_username = JStr ''c''\<rparr>)], 0)"
  using cleanup_exact_idempotent [of
     "[(''a_1'', \<lparr>otp = ''1111'', expires = 99, otp_username = JStr ''a''\<rparr>),
      (''b_2'', \<lparr>otp = ''2222'', expires = 100, otp_username = JStr ''b''\<rparr>),
      (''c_3'', \<lparr>otp = ''3333'', expires = 101, otp_username = JStr ''c''\<rparr>)]" 100]
  by (simp add: cleanup_def)

section \<open>The guard of the login handler (C7)\<close>

text \<open>
  On two string fields no conversion is needed: the handler is the three checks of lines
  149-159 followed by the writes of lines 162-178.
\<close>

lemma post_login_strings:
  "post_login env (JStr u) (JStr p) (s, st) =
     Some (if u = [] \<or> p = [] then
             (Render ''login'' (Some ''Username and password are required''), s, st)
           else if 20 \<le> length u then
             (Render ''login'' (Some ''Username must be less than 20 characters''), s, st)
           else if \<not> password_regex_test p then
             (Render ''login'' (Some ''Password must be exactly 4 digits''), s, st)
           else
             (if email_sent env then Redirect ''/verify-otp''
              else Render ''login'' (Some ''Failed to send OTP. Please try again.''),
              s\<lparr>pendingAuth := Some \<lparr>pa_username = JStr u, pa_timestamp = now_pending env\<rparr>,
                otpKey := Some (otp_key_of u (now_key env))\<rparr>,
              AList.update (otp_key_of u (now_key env))
                \<lparr>otp = generated_otp env, expires = now_store env + 60000,
                 otp_username = JStr u\<rparr> st))"
  by (simp add: Let_def)

lemma spec_guard_strings:
  "spec_guard (JStr u) (JStr p) =
     (u \<noteq> [] \<and> p \<noteq> [] \<and> length u < 20 \<and> password_regex_test p)"
  by (auto simp: password_regex_test_iff list_all_iff)

lemma post_login_accepted:
  "spec_guard (JStr u) (JStr p) \<Longrightarrow>
     post_login env (JStr u) (JStr p) (s, st) =
       Some (if email_sent env then Redirect ''/verify-otp''
             else Render ''login'' (Some ''Failed to send OTP. Please try again.''),
             s\<lparr>pendingAuth := Some \<lparr>pa_username = JStr u, pa_timestamp = now_pending env\<rparr>,
               otpKey := Some (otp_key_of u (now_key env))\<rparr>,
             AList.update (otp_key_of u (now_key env))
               \<lparr>otp = generated_otp env, expires = now_store env + 60000,
                otp_username = JStr u\<rparr> st)"
  unfolding post_login_strings spec_guard_strings by auto

text \<open>
  On string fields the handler answers with a validation error exactly when the guard of
  the specification fails, and then returns the session and the store as they were.
\<close>

lemma login_guard_on_strings:
  "\<exists>r. post_login env (JStr u) (JStr p) (s, st) = Some r
     \<and> validation_error (resp r) = (\<not> spec_guard (JStr u) (JStr p))
     \<and> (\<not> spec_guard (JStr u) (JStr p) \<longrightarrow> snd r = (s, st))"
  unfolding post_login_strings spec_guard_strings
  by (auto simp: validation_error_def)

lemma length_update:
  "length (AList.update k v al) = (if map_of al k = None then length al + 1 else length al)"
  by (induction al) (auto split: if_splits)

text \<open>
  C7 asks that the guard accepts exactly the submissions with a non-empty username
  shorter than 20 and a password of exactly 4 digits. The check of line 153 reads
  \<^verbatim>\<open>username.length\<close> of whatever the body parser delivered: for the form body
  \<^verbatim>\<open>username[]=aaaaaaaaaaaaaaaaaaaaaaaaa&password=1234\<close> the field is an array of one
  string, its length is 1, and the submission is accepted: a record is issued for a user
  name of 25 characters under the key built from its string. The same 25 characters sent
  as a string are answered "Username must be less than 20 characters".
\<close>

theorem array_username_passes_guard:
  "\<not> spec_guard (JArr [JStr ''aaaaaaaaaaaaaaaaaaaaaaaaa'']) (JStr ''1234'')
   \<and> post_login
       \<lparr>generated_otp = ''7421'', now_pending = 0, now_key = 0, now_store = 0, email_sent = True\<rparr>
       (JArr [JStr ''aaaaaaaaaaaaaaaaaaaaaaaaa'']) (JStr ''1234'') (new_session, [])
     = Some (Redirect ''/verify-otp'',
        \<lparr>pendingAuth =
           Some \<lparr>pa_username = JArr [JStr ''aaaaaaaaaaaaaaaaaaaaaaaaa''], pa_timestamp = 0\<rparr>,
         otpKey = Some ''aaaaaaaaaaaaaaaaaaaaaaaaa_0'', authenticated = False, username = None,
         loginTime = None\<rparr>,
        [(''aaaaaaaaaaaaaaaaaaaaaaaaa_0'',
          \<lparr>otp = ''7421'', expires = 60000,
           otp_username = JArr [JStr ''aaaaaaaaaaaaaaaaaaaaaaaaa'']\<rparr>)])
   \<and> post_login
       \<lparr>generated_otp = ''7421'', now_pending = 0, now_key = 0, now_store = 0, email_sent = True\<rparr>
       (JStr ''aaaaaaaaaaaaaaaaaaaaaaaaa'') (JStr ''1234'') (new_session, [])
     = Some (Render ''login'' (Some ''Username must be less than 20 characters''),
        new_session, [])"
  by (simp add: password_regex_test_iff is_digit_def Let_def new_session_def otp_key_of_def
      number_toString_def dec_nat.simps digit_char_def)

section \<open>Failed delivery (C2)\<close>

text \<open>
  C2 asks that a failed delivery returns the session to Anonymous, the pending username
  and the pending attempt key discarded. The handler writes \<^verbatim>\<open>pendingAuth\<close>, the record
  and \<^verbatim>\<open>otpKey\<close> before it sends the mail (lines 162-178), and the failure branch (line
  187) renders the login page with "Failed to send OTP. Please try again." and clears
  nothing. For the submission \<open>alice\<close>, \<open>1234\<close> with a failed delivery the session keeps
  the pending attempt and the key, the second-factor page is still shown to it, and the
  code that was never delivered still authenticates it.
\<close>

theorem failed_delivery_keeps_pending:
  "post_login
     \<lparr>generated_otp = ''7421'', now_pending = 0, now_key = 0, now_store = 0, email_sent = False\<rparr>
     (JStr ''alice'') (JStr ''1234'') (new_session, [])
   = Some (Render ''login'' (Some ''Failed to send OTP. Please try again.''),
      \<lparr>pendingAuth = Some \<lparr>pa_username = JStr ''alice'', pa_timestamp = 0\<rparr>,
       otpKey = Some ''alice_0'', authenticated = False, username = None, loginTime = None\<rparr>,
      [(''alice_0'', \<lparr>otp = ''7421'', expires = 60000, otp_username = JStr ''alice''\<rparr>)])
   \<and> get_verify_otp
      \<lparr>pendingAuth = Some \<lparr>pa_username = JStr ''alice'', pa_timestamp = 0\<rparr>,
       otpKey = Some ''alice_0'', authenticated = False, username = None, loginTime = None\<rparr> = Render ''verify-otp'' None
   \<and> post_verify_otp 1000 1001 (Some ''7421'')
     (\<lparr>pendingAuth = Some \<lparr>pa_username = JStr ''alice'', pa_timestamp = 0\<rparr>,
       otpKey = Some ''alice_0'', authenticated = False, username = None, loginTime = None\<rparr>,
      [(''alice_0'', \<lparr>otp = ''7421'', expires = 60000, otp_username = JStr ''alice''\<rparr>)])
   = (Redirect ''/dashboard'',
      \<lparr>pendingAuth = None, otpKey = None, authenticated = True,
       username = Some (JStr ''alice''), loginTime = Some 1001\<rparr>, [])"
  by (simp add: password_regex_test_iff is_digit_def Let_def new_session_def otp_key_of_def
      number_toString_def dec_nat.simps digit_char_def)

section \<open>A key with no record (C3)\<close>

text \<open>
  C3 asks that a submission whose key has no record is treated like an expired one: the
  pending attempt and the key of the session are cleared. In the handler the branch of
  lines 211-213 returns with the message "OTP not found or expired" and writes nothing,
  while the expiry branch of lines 216-221 clears both fields. The run below is a login at
  time 0, the clean-up at 120000, which removes the expired record, and a submission at
  130000: the session still holds the pending attempt and the key. With the record still
  in the store (the clean-up not yet run) the same submission clears them.
\<close>

theorem not_found_keeps_pending:
  "post_login
     \<lparr>generated_otp = ''7421'', now_pending = 0, now_key = 0, now_store = 0, email_sent = True\<rparr>
     (JStr ''alice'') (JStr ''1234'') (new_session, [])
   = Some (Redirect ''/verify-otp'',
      \<lparr>pendingAuth = Some \<lparr>pa_username = JStr ''alice'', pa_timestamp = 0\<rparr>,
       otpKey = Some ''alice_0'', authenticated = False, username = None, loginTime = None\<rparr>,
      [(''alice_0'', \<lparr>otp = ''7421'', expires = 60000, otp_username = JStr ''alice''\<rparr>)])
   \<and> cleanup 120000 [(''alice_0'', \<lparr>otp = ''7421'', expires = 60000, otp_username = JStr ''alice''\<rparr>)]
     = ([], 1)
   \<and> post_verify_otp 130000 130001 (Some ''7421'')
     (\<lparr>pendingAuth = Some \<lparr>pa_username = JStr ''alice'', pa_timestamp = 0\<rparr>,
       otpKey = Some ''alice_0'', authenticated = False, username = None, loginTime = None\<rparr>, [])
   = (Render ''verify-otp'' (Some ''OTP not found or expired''),
      \<lparr>pendingAuth = Some \<lparr>pa_username = JStr ''alice'', pa_timestamp = 0\<rparr>,
       otpKey = Some ''alice_0'', authenticated = False, username = None, loginTime = None\<rparr>, [])
   \<and> post_verify_otp 130000 130001 (Some ''7421'')
     (\<lparr>pendingAuth = Some \<lparr>pa_username = JStr ''alice'', pa_timestamp = 0\<rparr>,
       otpKey = Some ''alice_0'', authenticated = False, username = None, loginTime = None\<rparr>,
      [(''alice_0'', \<lparr>otp = ''7421'', expires = 60000, otp_username = JStr ''alice''\<rparr>)])
   = (Render ''verify-otp'' (Some ''OTP has expired. Please login again.''),
      \<lparr>pendingAuth = None, otpKey = None, authenticated = False, username = None,
       loginTime = None\<rparr>, [])"
  by (simp add: password_regex_test_iff is_digit_def Let_def new_session_def otp_key_of_def
      number_toString_def dec_nat.simps digit_char_def cleanup_def)

section \<open>Attempt keys (C8)\<close>

text \<open>
  C8 as stated asks that two issue calls always compute different keys, also for the same
  username within the same millisecond. The key is the username, an underscore and the
  decimal \<^verbatim>\<open>Date.now()\<close> (line 169): two submissions of \<open>alice\<close> at the same millisecond
  compute the same key, and the second \<^verbatim>\<open>otpStore.set\<close> replaces the record of the first;
  the store still has one entry.
\<close>

theorem attempt_key_collision_counterexample:
  "post_login
       \<lparr>generated_otp = ''1111'', now_pending = 0, now_key = 0, now_store = 0, email_sent = True\<rparr>
       (JStr ''alice'') (JStr ''1234'') (new_session, [])
     = Some (Redirect ''/verify-otp'',
        \<lparr>pendingAuth = Some \<lparr>pa_username = JStr ''alice'', pa_timestamp = 0\<rparr>,
       otpKey = Some ''alice_0'', authenticated = False, username = None, loginTime = None\<rparr>,
        [(''alice_0'', \<lparr>otp = ''1111'', expires = 60000, otp_username = JStr ''alice''\<rparr>)])
   \<and> post_login
       \<lparr>generated_otp = ''2222'', now_pending = 0, now_key = 0, now_store = 0, email_sent = True\<rparr>
       (JStr ''alice'') (JStr ''1234'')
       (new_session,
        [(''alice_0'', \<lparr>otp = ''1111'', expires = 60000, otp_username = JStr ''alice''\<rparr>)])
     = Some (Redirect ''/verify-otp'',
        \<lparr>pendingAuth = Some \<lparr>pa_username = JStr ''alice'', pa_timestamp = 0\<rparr>,
       otpKey = Some ''alice_0'', authenticated = False, username = None, loginTime = None\<rparr>,
        [(''alice_0'', \<lparr>otp = ''2222'', expires = 60000, otp_username = JStr ''alice''\<rparr>)])"
  by (simp add: password_regex_test_iff is_digit_def Let_def new_session_def otp_key_of_def
      number_toString_def dec_nat.simps digit_char_def)

text \<open>
  C8, amended. Two issue calls compute the same attempt key exactly when their username
  and the millisecond read for the key are the same. An accepted submission writes its key
  to the session and its record under that key; the store grows by one entry when the key
  had no record, and keeps its size, with the record replaced, when it had one.
\<close>

theorem attempt_key_injective:
  "(otp_key_of u t = otp_key_of u' t') = (u = u' \<and> t = t')
   \<and> (spec_guard (JStr u) (JStr p) \<longrightarrow>
        (\<exists>r. post_login env (JStr u) (JStr p) (s, st) = Some r
           \<and> otpKey (sess r) = Some (otp_key_of u (now_key env))
           \<and> map_of (store r) (otp_key_of u (now_key env))
               = Some \<lparr>otp = generated_otp env, expires = now_store env + 60000,
                       otp_username = JStr u\<rparr>
           \<and> length (store r)
               = (if map_of st (otp_key_of u (now_key env)) = None then length st + 1
                  else length st)))"
proof -
  have "\<exists>r. post_login env (JStr u) (JStr p) (s, st) = Some r
           \<and> otpKey (sess r) = Some (otp_key_of u (now_key env))
           \<and> map_of (store r) (otp_key_of u (now_key env))
               = Some \<lparr>otp = generated_otp env, expires = now_store env + 60000,
                       otp_username = JStr u\<rparr>
           \<and> length (store r)
               = (if map_of st (otp_key_of u (now_key env)) = None then length st + 1
                  else length st)"
    if acc: "spec_guard (JStr u) (JStr p)"
    by (simp add: post_login_accepted [OF acc] update_conv' length_update
        del: post_login.simps)
  with otp_key_of_inj [of u t u' t'] show ?thesis by blast
qed

theorem attempt_key_injective_witness:
  "otp_key_of ''alice'' 0 \<noteq> otp_key_of ''alice'' 1
   \<and> spec_guard (JStr ''alice'') (JStr ''1234'')
   \<and> post_login
       \<lparr>generated_otp = ''2222'', now_pending = 1, now_key = 1, now_store = 1, email_sent = True\<rparr>
       (JStr ''alice'') (JStr ''1234'')
       (new_session,
        [(''alice_0'', \<lparr>otp = ''1111'', expires = 60000, otp_username = JStr ''alice''\<rparr>)])
     = Some (Redirect ''/verify-otp'',
        \<lparr>pendingAuth = Some \<lparr>pa_username = JStr ''alice'', pa_timestamp = 1\<rparr>,
         otpKey = Some ''alice_1'', authenticated = False, username = None, loginTime = None\<rparr>,
        [(''alice_0'', \<lparr>otp = ''1111'', expires = 60000, otp_username = JStr ''alice''\<rparr>),
         (''alice_1'', \<lparr>otp = ''2222'', expires = 60001, otp_username = JStr ''alice''\<rparr>)])"
  using attempt_key_injective [of "''alice''" 0 "''alice''" 1 "''1234''"
       "\<lparr>generated_otp = ''2222'', now_pending = 1, now_key = 1, now_store = 1, email_sent = True\<rparr>"
       new_session
       "[(''alice_0'', \<lparr>otp = ''1111'', expires = 60000, otp_username = JStr ''alice''\<rparr>)]"]
  by (simp add: password_regex_test_iff is_digit_def Let_def new_session_def otp_key_of_def
      number_toString_def dec_nat.simps digit_char_def)

section \<open>The session fields (C5)\<close>

text \<open>
  C5 asks that no reachable session holds an authenticated user name and a pending
  attempt key at once. The login page redirects an authenticated session to the dashboard
  (line 138) and the verification handler turns away a session without a pending attempt
  (line 205), but the login handler does not look at the \<^verbatim>\<open>authenticated\<close> flag. The
  run below is a login and a verification from a fresh session, which authenticate
  \<open>alice\<close>, and a second credential submission by that session: it then holds the user
  name \<open>alice\<close> and the key of the new attempt.
\<close>

theorem relogin_while_authenticated:
  "post_login
     \<lparr>generated_otp = ''7421'', now_pending = 0, now_key = 0, now_store = 0, email_sent = True\<rparr>
     (JStr ''alice'') (JStr ''1234'') (new_session, [])
   = Some (Redirect ''/verify-otp'',
      \<lparr>pendingAuth = Some \<lparr>pa_username = JStr ''alice'', pa_timestamp = 0\<rparr>,
       otpKey = Some ''alice_0'', authenticated = False, username = None, loginTime = None\<rparr>,
      [(''alice_0'', \<lparr>otp = ''7421'', expires = 60000, otp_username = JStr ''alice''\<rparr>)])
   \<and> post_verify_otp 1000 1001 (Some ''7421'')
     (\<lparr>pendingAuth = Some \<lparr>pa_username = JStr ''alice'', pa_timestamp = 0\<rparr>,
       otpKey = Some ''alice_0'', authenticated = False, username = None, loginTime = None\<rparr>,
      [(''alice_0'', \<lparr>otp = ''7421'', expires = 60000, otp_username = JStr ''alice''\<rparr>)])
   = (Redirect ''/dashboard'',
      \<lparr>pendingAuth = None, otpKey = None, authenticated = True,
       username = Some (JStr ''alice''), loginTime = Some 1001\<rparr>, [])
   \<and> get_login
      \<lparr>pendingAuth = None, otpKey = None, authenticated = True,
       username = Some (JStr ''alice''), loginTime = Some 1001\<rparr> = Redirect ''/dashboard''
   \<and> post_login
     \<lparr>generated_otp = ''5555'', now_pending = 2000, now_key = 2000, now_store = 2000,
      email_sent = True\<rparr>
     (JStr ''bob'') (JStr ''4321'')
     (\<lparr>pendingAuth = None, otpKey = None, authenticated = True,
       username = Some (JStr ''alice''), loginTime = Some 1001\<rparr>, [])
   = Some (Redirect ''/verify-otp'',
      \<lparr>pendingAuth = Some \<lparr>pa_username = JStr ''bob'', pa_timestamp = 2000\<rparr>,
      otpKey = Some ''bob_2000'', authenticated = True, username = Some (JStr ''alice''),
      loginTime = Some 1001\<rparr>,
      [(''bob_2000'', \<lparr>otp = ''5555'', expires = 62000, otp_username = JStr ''bob''\<rparr>)])
   \<and> both_populated
      \<lparr>pendingAuth = Some \<lparr>pa_username = JStr ''bob'', pa_timestamp = 2000\<rparr>,
      otpKey = Some ''bob_2000'', authenticated = True, username = Some (JStr ''alice''),
      loginTime = Some 1001\<rparr>"
  by (simp add: password_regex_test_iff is_digit_def Let_def new_session_def otp_key_of_def
      number_toString_def dec_nat.simps digit_char_def both_populated_def)

text \<open>
  The pairing of the pending attempt with its key can be lost as well: for the JSON body
  \<^verbatim>\<open>{"username": {"toString": 1}, "password": "1234"}\<close> the three checks pass, line 162
  writes the pending attempt, and the template literal of line 169 throws before the key
  and the record are written.
\<close>

lemma login_throw_after_pending:
  "post_login
     \<lparr>generated_otp = ''7421'', now_pending = 0, now_key = 0, now_store = 0, email_sent = True\<rparr>
     (JObj [(''toString'', JNum 1)]) (JStr ''1234'') (new_session, [])
   = Some (ServerError,
      \<lparr>pendingAuth = Some \<lparr>pa_username = JObj [(''toString'', JNum 1)], pa_timestamp = 0\<rparr>,
       otpKey = None, authenticated = False, username = None, loginTime = None\<rparr>, [])"
  by (simp add: password_regex_test_iff is_digit_def Let_def new_session_def otp_key_of_def
      number_toString_def dec_nat.simps digit_char_def)

end
